theory Spec2Isabelle
  imports Main "HOL-Library.Word"
begin

unbundle bit_operations_syntax

section \<open>The QSPI back end of the STM targets (targets/TARGET_STM/qspi_api.c)\<close>

text \<open>
  The C file wraps the vendor's QSPI driver. Its integers are 32-bit machine words; the
  enumerations of hal/qspi_api.h become datatypes, its structs become records, and every
  call into the vendor's library is written into a log of calls, whose answers come from
  an environment that is a parameter of the model.
\<close>

type_synonym uint32_t = "32 word"
type_synonym uint8_t = "8 word"
type_synonym size_t = "32 word"
type_synonym PinName = "32 word"

subsection \<open>Types of hal/qspi_api.h\<close>

text \<open>
  Modelled from the spec: hal/qspi_api.h, which declares \<open>qspi_bus_width_t\<close>,
  \<open>qspi_status_t\<close> and \<open>qspi_command_t\<close>, is not among the sources. The spec names the
  status codes (success, error, invalid parameter) and the descriptor's phases
  (instruction, address, alternate bytes, data, each with a bus width and an
  enable/disable flag); the fields below are those that qspi_api.c reads.

  A C enumeration can hold an integer that is none of its enumerators, which is what the
  \<open>default\<close> branches of the source are for: \<open>QSPI_CFG_BUS_OTHER v\<close> stands for such a
  raw value \<open>v\<close>.
\<close>

datatype qspi_bus_width_t =
    QSPI_CFG_BUS_SINGLE
  | QSPI_CFG_BUS_DUAL
  | QSPI_CFG_BUS_QUAD
  | QSPI_CFG_BUS_OTHER uint32_t

datatype qspi_status_t =
    QSPI_STATUS_OK
  | QSPI_STATUS_ERROR
  | QSPI_STATUS_INVALID_PARAMETER

text \<open>
  \<open>command->instruction.bus_width\<close> is the field \<open>instruction_bus_width\<close>, and so on.
  Values, sizes and the dummy count are kept as the 32-bit values that the source stores
  into the 32-bit fields of the vendor's command structure.
\<close>

record qspi_command_t =
  instruction_bus_width :: qspi_bus_width_t
  instruction_value :: uint32_t
  address_bus_width :: qspi_bus_width_t
  address_size :: uint32_t
  address_value :: uint32_t
  address_disabled :: bool
  alt_bus_width :: qspi_bus_width_t
  alt_size :: uint32_t
  alt_value :: uint32_t
  alt_disabled :: bool
  dummy_count :: uint32_t
  data_bus_width :: qspi_bus_width_t

subsection \<open>The vendor's structures and constants\<close>

record QSPI_CommandTypeDef =
  Instruction :: uint32_t
  Address :: uint32_t
  AlternateBytes :: uint32_t
  AddressSize :: uint32_t
  AlternateBytesSize :: uint32_t
  DummyCycles :: uint32_t
  InstructionMode :: uint32_t
  AddressMode :: uint32_t
  AlternateByteMode :: uint32_t
  DataMode :: uint32_t
  NbData :: uint32_t
  DdrMode :: uint32_t
  DdrHoldHalfCycle :: uint32_t
  SIOOMode :: uint32_t

record QSPI_InitTypeDef =
  ClockPrescaler :: uint32_t
  FifoThreshold :: uint32_t
  SampleShifting :: uint32_t
  FlashSize :: uint32_t
  ChipSelectHighTime :: uint32_t
  ClockMode :: uint32_t
  FlashID :: uint32_t
  DualFlash :: uint32_t

text \<open>
  Of the vendor's handle the source touches \<open>Instance\<close> and \<open>Init\<close>; what the vendor's
  library keeps in the handle for itself (lock, state, error code) belongs to the
  environment.
\<close>

record QSPI_HandleTypeDef =
  Instance :: uint32_t
  Init :: QSPI_InitTypeDef

record qspi_t =
  handle :: QSPI_HandleTypeDef

text \<open>
  Modelled from the spec: the spec speaks of "register field values" and of "a fixed
  timeout" without giving them, and the vendor headers that define these macros are not
  among the sources. They are parameters of the model: a value of \<open>hal_defs\<close> gives
  each macro that qspi_api.c uses its value. \<open>QSPI_DUALFLASH_ENABLE\<close> tells whether that
  macro is defined.
\<close>

record hal_defs =
  QSPI_INSTRUCTION_NONE :: uint32_t
  QSPI_INSTRUCTION_1_LINE :: uint32_t
  QSPI_INSTRUCTION_2_LINES :: uint32_t
  QSPI_INSTRUCTION_4_LINES :: uint32_t
  QSPI_ADDRESS_NONE :: uint32_t
  QSPI_ADDRESS_1_LINE :: uint32_t
  QSPI_ADDRESS_2_LINES :: uint32_t
  QSPI_ADDRESS_4_LINES :: uint32_t
  QSPI_ALTERNATE_BYTES_NONE :: uint32_t
  QSPI_ALTERNATE_BYTES_1_LINE :: uint32_t
  QSPI_ALTERNATE_BYTES_2_LINES :: uint32_t
  QSPI_ALTERNATE_BYTES_4_LINES :: uint32_t
  QSPI_DATA_NONE :: uint32_t
  QSPI_DATA_1_LINE :: uint32_t
  QSPI_DATA_2_LINES :: uint32_t
  QSPI_DATA_4_LINES :: uint32_t
  QUADSPI_CCR_ADSIZE_Pos :: nat
  QUADSPI_CCR_ADSIZE_Msk :: uint32_t
  QUADSPI_CCR_ABSIZE_Pos :: nat
  QUADSPI_CCR_ABSIZE_Msk :: uint32_t
  QSPI_SIOO_INST_EVERY_CMD :: uint32_t
  QSPI_DDR_MODE_DISABLE :: uint32_t
  QSPI_DDR_HHC_ANALOG_DELAY :: uint32_t
  HAL_QPSI_TIMEOUT_DEFAULT_VALUE :: uint32_t

record init_defs =
  QSPI_SAMPLE_SHIFTING_HALFCYCLE :: uint32_t
  QSPI_CS_HIGH_TIME_5_CYCLE :: uint32_t
  QSPI_CLOCK_MODE_0 :: uint32_t
  QSPI_CLOCK_MODE_3 :: uint32_t
  QSPI_DUALFLASH_ENABLE :: bool
  QSPI_FLASH_ID_1 :: uint32_t
  QSPI_DUALFLASH_DISABLE :: uint32_t
  POSITION_VAL :: "uint32_t \<Rightarrow> uint32_t"

datatype HAL_StatusTypeDef = HAL_OK | HAL_ERROR | HAL_BUSY | HAL_TIMEOUT

datatype PinMap = PinMap_QSPI_DATA | PinMap_QSPI_SCLK | PinMap_QSPI_SSEL

subsection \<open>Calls into the vendor's library and the platform\<close>

text \<open>
  Each call that qspi_api.c makes into the vendor's library, and each
  \<open>pinmap_pinout\<close>, with the arguments it passes: the handle and the command
  structure as they are at the moment of the call, the transmit buffer, the timeout.
  The two pin-mapping look-ups \<open>pinmap_peripheral\<close> and \<open>pinmap_merge\<close> only
  compute a value and are not logged.
\<close>

datatype hal_call =
    Call_HAL_RCC_GetHCLKFreq
  | Call_HAL_RCC_QSPI_CLK_ENABLE
  | Call_HAL_RCC_QSPI_FORCE_RESET
  | Call_HAL_RCC_QSPI_RELEASE_RESET
  | Call_pinmap_pinout PinName PinMap
  | Call_HAL_QSPI_Init QSPI_HandleTypeDef
  | Call_HAL_QSPI_Command QSPI_HandleTypeDef QSPI_CommandTypeDef uint32_t
  | Call_HAL_QSPI_Transmit QSPI_HandleTypeDef "uint8_t list" uint32_t
  | Call_HAL_QSPI_Receive QSPI_HandleTypeDef uint32_t

text \<open>
  The platform is everything qspi_api.c calls and does not define: the clock frequency
  that a call of \<open>HAL_RCC_GetHCLKFreq()\<close> reports, the two pin-mapping functions
  (assumed to return), and \<open>hal_response\<close>, the status with which the vendor's library answers a
  call, given the calls made before it. The bytes that the vendor's receive routine
  stores into the caller's buffer, and the diagnostic \<open>printf\<close> output of the source,
  are not part of the model.
\<close>

record platform =
  HAL_RCC_GetHCLKFreq :: uint32_t
  pinmap_peripheral :: "PinName \<Rightarrow> PinMap \<Rightarrow> uint32_t"
  pinmap_merge :: "uint32_t \<Rightarrow> uint32_t \<Rightarrow> uint32_t"
  hal_response :: "hal_call list \<Rightarrow> hal_call \<Rightarrow> HAL_StatusTypeDef"

text \<open>The timeout argument of a call, for the calls that take one.\<close>

fun hal_timeout :: "hal_call \<Rightarrow> uint32_t option" where
  "hal_timeout (Call_HAL_QSPI_Command h c t) = Some t"
| "hal_timeout (Call_HAL_QSPI_Transmit h d t) = Some t"
| "hal_timeout (Call_HAL_QSPI_Receive h t) = Some t"
| "hal_timeout _ = None"

fun is_HAL_QSPI_Init :: "hal_call \<Rightarrow> bool" where
  "is_HAL_QSPI_Init (Call_HAL_QSPI_Init h) = True"
| "is_HAL_QSPI_Init _ = False"

fun is_HAL_QSPI_Transmit :: "hal_call \<Rightarrow> bool" where
  "is_HAL_QSPI_Transmit (Call_HAL_QSPI_Transmit h d t) = True"
| "is_HAL_QSPI_Transmit _ = False"

fun is_HAL_QSPI_Receive :: "hal_call \<Rightarrow> bool" where
  "is_HAL_QSPI_Receive (Call_HAL_QSPI_Receive h t) = True"
| "is_HAL_QSPI_Receive _ = False"

text \<open>The calls that a function added to the log \<open>tr\<close> it started from.\<close>

definition issued :: "hal_call list \<Rightarrow> hal_call list \<Rightarrow> hal_call list" where
  "issued tr tr' = drop (length tr) tr'"

text \<open>
  An integer division by zero is undefined behaviour in C; the model stops there with a
  fault instead of a result.
\<close>

datatype fault = Division_By_Zero

subsection \<open>qspi\_prepare\_command\<close>

text \<open>
  The function writes into \<open>*st_command\<close>, so the model takes the structure as it is
  before the call and returns it updated, in the order of the source's assignments. A
  field the source does not assign keeps its old contents.
\<close>

definition qspi_prepare_command ::
  "hal_defs \<Rightarrow> qspi_command_t \<Rightarrow> QSPI_CommandTypeDef \<Rightarrow> QSPI_CommandTypeDef" where
  "qspi_prepare_command k command st_command =
    (let st1 = st_command\<lparr>InstructionMode :=
                 (case instruction_bus_width command of
                    QSPI_CFG_BUS_SINGLE \<Rightarrow> QSPI_INSTRUCTION_1_LINE k
                  | QSPI_CFG_BUS_DUAL \<Rightarrow> QSPI_INSTRUCTION_2_LINES k
                  | QSPI_CFG_BUS_QUAD \<Rightarrow> QSPI_INSTRUCTION_4_LINES k
                  | QSPI_CFG_BUS_OTHER v \<Rightarrow> QSPI_INSTRUCTION_NONE k)\<rparr>;
         st2 = st1\<lparr>Instruction := instruction_value command,
                   DummyCycles := dummy_count command,
                   SIOOMode := QSPI_SIOO_INST_EVERY_CMD k,
                   DdrMode := QSPI_DDR_MODE_DISABLE k,
                   DdrHoldHalfCycle := QSPI_DDR_HHC_ANALOG_DELAY k\<rparr>;
         st3 = st2\<lparr>AddressMode :=
                 (case address_bus_width command of
                    QSPI_CFG_BUS_SINGLE \<Rightarrow> QSPI_ADDRESS_1_LINE k
                  | QSPI_CFG_BUS_DUAL \<Rightarrow> QSPI_ADDRESS_2_LINES k
                  | QSPI_CFG_BUS_QUAD \<Rightarrow> QSPI_ADDRESS_4_LINES k
                  | QSPI_CFG_BUS_OTHER v \<Rightarrow> QSPI_ADDRESS_NONE k)\<rparr>;
         st4 = (if address_disabled command = True
                then st3\<lparr>AddressMode := QSPI_ADDRESS_NONE k,
                         AddressSize := 0\<rparr>
                else st3\<lparr>Address := address_value command,
                         AddressSize :=
                           push_bit (QUADSPI_CCR_ADSIZE_Pos k) (address_size command)
                             AND QUADSPI_CCR_ADSIZE_Msk k\<rparr>);
         st5 = st4\<lparr>AlternateByteMode :=
                 (case alt_bus_width command of
                    QSPI_CFG_BUS_SINGLE \<Rightarrow> QSPI_ALTERNATE_BYTES_1_LINE k
                  | QSPI_CFG_BUS_DUAL \<Rightarrow> QSPI_ALTERNATE_BYTES_2_LINES k
                  | QSPI_CFG_BUS_QUAD \<Rightarrow> QSPI_ALTERNATE_BYTES_4_LINES k
                  | QSPI_CFG_BUS_OTHER v \<Rightarrow> QSPI_ALTERNATE_BYTES_NONE k)\<rparr>;
         st6 = (if alt_disabled command = True
                then st5\<lparr>AlternateByteMode := QSPI_ALTERNATE_BYTES_NONE k,
                         AlternateBytesSize := 0\<rparr>
                else st5\<lparr>AlternateBytes := alt_value command,
                         AlternateBytesSize :=
                           push_bit (QUADSPI_CCR_ABSIZE_Pos k) (alt_size command)
                             AND QUADSPI_CCR_ABSIZE_Msk k,
                         AlternateBytesSize := alt_size command\<rparr>);
         st7 = st6\<lparr>DataMode :=
                 (case data_bus_width command of
                    QSPI_CFG_BUS_SINGLE \<Rightarrow> QSPI_DATA_1_LINE k
                  | QSPI_CFG_BUS_DUAL \<Rightarrow> QSPI_DATA_2_LINES k
                  | QSPI_CFG_BUS_QUAD \<Rightarrow> QSPI_DATA_4_LINES k
                  | QSPI_CFG_BUS_OTHER v \<Rightarrow> QSPI_DATA_NONE k)\<rparr>
     in st7\<lparr>NbData := 0\<rparr>)"

subsection \<open>qspi\_free and qspi\_frequency\<close>

definition qspi_free ::
  "qspi_t \<Rightarrow> hal_call list \<Rightarrow> qspi_status_t \<times> qspi_t \<times> hal_call list" where
  "qspi_free obj tr = (QSPI_STATUS_ERROR, obj, tr)"

text \<open>
  \<open>int div = HAL_RCC_GetHCLKFreq() / hz\<close>: the left operand is a \<open>uint32_t\<close>, so C
  converts \<open>hz\<close> to \<open>uint32_t\<close> and divides unsigned; the quotient is then read as an
  \<open>int\<close>. The parameter \<open>hz\<close> is the 32-bit pattern of the \<open>int\<close> argument
  (\<open>sint hz\<close> is its value), and \<open>div_v\<close> is the source's variable \<open>div\<close>.
  The call of \<open>HAL_RCC_GetHCLKFreq()\<close> comes first and is logged; the division
  follows it.
\<close>

definition qspi_frequency ::
  "platform \<Rightarrow> qspi_t \<Rightarrow> uint32_t \<Rightarrow> hal_call list
     \<Rightarrow> fault + (qspi_status_t \<times> qspi_t \<times> hal_call list)" where
  "qspi_frequency p obj hz tr =
    (let tr1 = tr @ [Call_HAL_RCC_GetHCLKFreq] in
     if hz = 0 then Inl Division_By_Zero
     else
       let div_v = sint (HAL_RCC_GetHCLKFreq p div hz) in
       if div_v > 256 \<or> div_v < 1 then Inr (QSPI_STATUS_INVALID_PARAMETER, obj, tr1)
       else
         let obj1 = obj\<lparr>handle := (handle obj)\<lparr>Init :=
                      (Init (handle obj))\<lparr>ClockPrescaler := word_of_int (div_v - 1)\<rparr>\<rparr>\<rparr>;
             call = Call_HAL_QSPI_Init (handle obj1)
         in if hal_response p tr1 call \<noteq> HAL_OK
            then Inr (QSPI_STATUS_ERROR, obj1, tr1 @ [call])
            else Inr (QSPI_STATUS_OK, obj1, tr1 @ [call]))"

subsection \<open>qspi\_write, qspi\_read and qspi\_command\_transfer\<close>

text \<open>
  \<open>st_command\<close> is a local variable without initialiser: \<open>uninit\<close> is what the stack
  holds there. \<open>*length\<close> is passed in and handed back, so that a write to it would show
  in the result.
\<close>

definition qspi_write ::
  "hal_defs \<Rightarrow> platform \<Rightarrow> QSPI_CommandTypeDef \<Rightarrow> qspi_t \<Rightarrow> qspi_command_t
     \<Rightarrow> uint8_t list \<Rightarrow> size_t \<Rightarrow> hal_call list
     \<Rightarrow> qspi_status_t \<times> size_t \<times> hal_call list" where
  "qspi_write k p uninit obj command data length_v tr =
    (let st_command = (qspi_prepare_command k command uninit)\<lparr>NbData := length_v\<rparr>;
         c1 = Call_HAL_QSPI_Command (handle obj) st_command
                (HAL_QPSI_TIMEOUT_DEFAULT_VALUE k)
     in if hal_response p tr c1 \<noteq> HAL_OK
        then (QSPI_STATUS_ERROR, length_v, tr @ [c1])
        else
          let c2 = Call_HAL_QSPI_Transmit (handle obj) data
                     (HAL_QPSI_TIMEOUT_DEFAULT_VALUE k)
          in if hal_response p (tr @ [c1]) c2 \<noteq> HAL_OK
             then (QSPI_STATUS_ERROR, length_v, tr @ [c1, c2])
             else (QSPI_STATUS_OK, length_v, tr @ [c1, c2]))"

definition qspi_read ::
  "hal_defs \<Rightarrow> platform \<Rightarrow> QSPI_CommandTypeDef \<Rightarrow> qspi_t \<Rightarrow> qspi_command_t
     \<Rightarrow> size_t \<Rightarrow> hal_call list
     \<Rightarrow> qspi_status_t \<times> size_t \<times> hal_call list" where
  "qspi_read k p uninit obj command length_v tr =
    (let st_command = (qspi_prepare_command k command uninit)\<lparr>NbData := length_v\<rparr>;
         c1 = Call_HAL_QSPI_Command (handle obj) st_command
                (HAL_QPSI_TIMEOUT_DEFAULT_VALUE k)
     in if hal_response p tr c1 \<noteq> HAL_OK
        then (QSPI_STATUS_ERROR, length_v, tr @ [c1])
        else
          let c2 = Call_HAL_QSPI_Receive (handle obj)
                     (HAL_QPSI_TIMEOUT_DEFAULT_VALUE k)
          in if hal_response p (tr @ [c1]) c2 \<noteq> HAL_OK
             then (QSPI_STATUS_ERROR, length_v, tr @ [c1, c2])
             else (QSPI_STATUS_OK, length_v, tr @ [c1, c2]))"

text \<open>
  \<open>tx_data\<close> and \<open>rx_data\<close> are pointers that the source compares with \<open>NULL\<close>:
  \<open>None\<close> is the null pointer, \<open>Some\<close> a buffer. \<open>rx_data\<close> only says whether the
  receive buffer is there. The three \<open>uninit\<close> arguments are the stack contents under
  the function's own \<open>st_command\<close> and under those of the two callees.

  In the \<open>else\<close> branch the source first runs the transmit step, if there is
  something to transmit, and returns from inside it when \<open>qspi_write\<close> fails; the
  model computes the status and the log after that step (unchanged when the step is
  skipped), returns there on a failed transmit step, and goes on to the receive step
  otherwise.
\<close>

definition qspi_command_transfer ::
  "hal_defs \<Rightarrow> platform \<Rightarrow> QSPI_CommandTypeDef \<Rightarrow> QSPI_CommandTypeDef
     \<Rightarrow> QSPI_CommandTypeDef \<Rightarrow> qspi_t \<Rightarrow> qspi_command_t
     \<Rightarrow> uint8_t list option \<Rightarrow> size_t \<Rightarrow> unit option \<Rightarrow> size_t \<Rightarrow> hal_call list
     \<Rightarrow> qspi_status_t \<times> hal_call list" where
  "qspi_command_transfer k p uninit uninit_tx uninit_rx obj command
       tx_data tx_size rx_data rx_size tr =
    (if (tx_data = None \<or> tx_size = 0) \<and> (rx_data = None \<or> rx_size = 0)
     then
       let st_command = (qspi_prepare_command k command uninit)
                          \<lparr>NbData := 1, DataMode := QSPI_DATA_NONE k\<rparr>;
           c1 = Call_HAL_QSPI_Command (handle obj) st_command
                  (HAL_QPSI_TIMEOUT_DEFAULT_VALUE k)
       in if hal_response p tr c1 \<noteq> HAL_OK
          then (QSPI_STATUS_ERROR, tr @ [c1])
          else (QSPI_STATUS_OK, tr @ [c1])
     else
       let (status, tx_length, tr1) =
             (if tx_data \<noteq> None \<and> tx_size \<noteq> 0
              then qspi_write k p uninit_tx obj command (the tx_data) tx_size tr
              else (QSPI_STATUS_OK, tx_size, tr))
       in if tx_data \<noteq> None \<and> tx_size \<noteq> 0 \<and> status \<noteq> QSPI_STATUS_OK
          then (status, tr1)
          else if rx_data \<noteq> None \<and> rx_size \<noteq> 0
          then
            let (status2, rx_length, tr2) =
                  qspi_read k p uninit_rx obj command rx_size tr1
            in (status2, tr2)
          else (status, tr1))"

subsection \<open>qspi\_init\<close>

definition QSPI_FLASH_SIZE_DEFAULT :: uint32_t where
  "QSPI_FLASH_SIZE_DEFAULT = 32"

definition qspi_init ::
  "init_defs \<Rightarrow> platform \<Rightarrow> qspi_t \<Rightarrow> PinName \<Rightarrow> PinName \<Rightarrow> PinName \<Rightarrow> PinName
     \<Rightarrow> PinName \<Rightarrow> PinName \<Rightarrow> uint32_t \<Rightarrow> uint8_t \<Rightarrow> hal_call list
     \<Rightarrow> fault + (qspi_status_t \<times> qspi_t \<times> hal_call list)" where
  "qspi_init d p obj io0 io1 io2 io3 sclk ssel hz mode tr =
    (let tr1 = tr @ [Call_HAL_RCC_QSPI_CLK_ENABLE, Call_HAL_RCC_QSPI_FORCE_RESET,
                     Call_HAL_RCC_QSPI_RELEASE_RESET];
         init1 = (Init (handle obj))
                   \<lparr>ClockPrescaler := 1,
                    FifoThreshold := 1,
                    SampleShifting := QSPI_SAMPLE_SHIFTING_HALFCYCLE d,
                    FlashSize := POSITION_VAL d QSPI_FLASH_SIZE_DEFAULT - 1,
                    ChipSelectHighTime := QSPI_CS_HIGH_TIME_5_CYCLE d,
                    ClockMode := QSPI_CLOCK_MODE_0 d\<rparr>;
         init2 = (if QSPI_DUALFLASH_ENABLE d
                  then init1\<lparr>FlashID := QSPI_FLASH_ID_1 d,
                             DualFlash := QSPI_DUALFLASH_DISABLE d\<rparr>
                  else init1);
         init3 = init2\<lparr>ClockMode :=
                   (if mode = 0 then QSPI_CLOCK_MODE_0 d else QSPI_CLOCK_MODE_3 d)\<rparr>;
         obj1 = obj\<lparr>handle := (handle obj)\<lparr>Init := init3\<rparr>\<rparr>;
         qspiio0name = pinmap_peripheral p io0 PinMap_QSPI_DATA;
         qspiio1name = pinmap_peripheral p io1 PinMap_QSPI_DATA;
         qspiio2name = pinmap_peripheral p io2 PinMap_QSPI_DATA;
         qspiio3name = pinmap_peripheral p io3 PinMap_QSPI_DATA;
         qspiclkname = pinmap_peripheral p sclk PinMap_QSPI_SCLK;
         qspisselname = pinmap_peripheral p ssel PinMap_QSPI_SSEL;
         qspi_data_first = pinmap_merge p qspiio0name qspiio1name;
         qspi_data_second = pinmap_merge p qspiio2name qspiio3name;
         qspi_data_third = pinmap_merge p qspiclkname qspisselname
     in if qspi_data_first \<noteq> qspi_data_second \<or> qspi_data_second \<noteq> qspi_data_third
           \<or> qspi_data_first \<noteq> qspi_data_third
        then Inr (QSPI_STATUS_INVALID_PARAMETER, obj1, tr1)
        else
          let obj2 = obj1\<lparr>handle := (handle obj1)\<lparr>Instance := qspi_data_first\<rparr>\<rparr>;
              tr2 = tr1 @ [Call_pinmap_pinout io0 PinMap_QSPI_DATA,
                           Call_pinmap_pinout io1 PinMap_QSPI_DATA,
                           Call_pinmap_pinout io2 PinMap_QSPI_DATA,
                           Call_pinmap_pinout io3 PinMap_QSPI_DATA,
                           Call_pinmap_pinout sclk PinMap_QSPI_SCLK,
                           Call_pinmap_pinout ssel PinMap_QSPI_SSEL];
              call = Call_HAL_QSPI_Init (handle obj2)
          in if hal_response p tr2 call \<noteq> HAL_OK
             then Inr (QSPI_STATUS_ERROR, obj2, tr2 @ [call])
             else
               (case qspi_frequency p obj2 hz (tr2 @ [call]) of
                  Inl f \<Rightarrow> Inl f
                | Inr r \<Rightarrow> Inr (QSPI_STATUS_OK, fst (snd r), snd (snd r))))"

subsection \<open>What the spec says of the bus-width mapping\<close>

text \<open>
  The spec's mapping of an enumerated bus width to a register field value, written from
  its words: single to the 1-line value, dual to the 2-lines value, quad to the 4-lines
  value, anything else to the value for no lines.
\<close>

definition bus_width_to_mode ::
  "uint32_t \<Rightarrow> uint32_t \<Rightarrow> uint32_t \<Rightarrow> uint32_t \<Rightarrow> qspi_bus_width_t \<Rightarrow> uint32_t" where
  "bus_width_to_mode none_v one_line two_lines four_lines w =
    (case w of
       QSPI_CFG_BUS_SINGLE \<Rightarrow> one_line
     | QSPI_CFG_BUS_DUAL \<Rightarrow> two_lines
     | QSPI_CFG_BUS_QUAD \<Rightarrow> four_lines
     | QSPI_CFG_BUS_OTHER v \<Rightarrow> none_v)"

subsection \<open>A concrete platform\<close>

text \<open>
  One instance of the parameters, on which the model is evaluated: the values that ST's
  headers for the STM32L4 family give to the macros, a clock of 80 MHz, every pin mapped
  to the one QUADSPI peripheral, and a vendor library that answers \<open>HAL_OK\<close>.
\<close>

definition stm32_hal_defs :: hal_defs where
  "stm32_hal_defs =
    \<lparr>QSPI_INSTRUCTION_NONE = 0x0,
     QSPI_INSTRUCTION_1_LINE = 0x100,
     QSPI_INSTRUCTION_2_LINES = 0x200,
     QSPI_INSTRUCTION_4_LINES = 0x300,
     QSPI_ADDRESS_NONE = 0x0,
     QSPI_ADDRESS_1_LINE = 0x400,
     QSPI_ADDRESS_2_LINES = 0x800,
     QSPI_ADDRESS_4_LINES = 0xC00,
     QSPI_ALTERNATE_BYTES_NONE = 0x0,
     QSPI_ALTERNATE_BYTES_1_LINE = 0x4000,
     QSPI_ALTERNATE_BYTES_2_LINES = 0x8000,
     QSPI_ALTERNATE_BYTES_4_LINES = 0xC000,
     QSPI_DATA_NONE = 0x0,
     QSPI_DATA_1_LINE = 0x1000000,
     QSPI_DATA_2_LINES = 0x2000000,
     QSPI_DATA_4_LINES = 0x3000000,
     QUADSPI_CCR_ADSIZE_Pos = 12,
     QUADSPI_CCR_ADSIZE_Msk = 0x3000,
     QUADSPI_CCR_ABSIZE_Pos = 16,
     QUADSPI_CCR_ABSIZE_Msk = 0x30000,
     QSPI_SIOO_INST_EVERY_CMD = 0x0,
     QSPI_DDR_MODE_DISABLE = 0x0,
     QSPI_DDR_HHC_ANALOG_DELAY = 0x0,
     HAL_QPSI_TIMEOUT_DEFAULT_VALUE = 5000\<rparr>"

text \<open>\<open>POSITION_VAL\<close> is the number of trailing zero bits (32 for the value 0).\<close>

fun trailing_zeros :: "nat \<Rightarrow> uint32_t \<Rightarrow> uint32_t" where
  "trailing_zeros 0 v = 0"
| "trailing_zeros (Suc n) v =
     (if v AND 1 = 1 then 0 else 1 + trailing_zeros n (drop_bit 1 v))"

definition stm32_init_defs :: init_defs where
  "stm32_init_defs =
    \<lparr>QSPI_SAMPLE_SHIFTING_HALFCYCLE = 0x10,
     QSPI_CS_HIGH_TIME_5_CYCLE = 0x400,
     QSPI_CLOCK_MODE_0 = 0x0,
     QSPI_CLOCK_MODE_3 = 0x1,
     QSPI_DUALFLASH_ENABLE = True,
     QSPI_FLASH_ID_1 = 0x0,
     QSPI_DUALFLASH_DISABLE = 0x0,
     POSITION_VAL = trailing_zeros 32\<rparr>"

definition NC :: uint32_t where
  "NC = 0xFFFFFFFF"

definition sample_platform :: platform where
  "sample_platform =
    \<lparr>HAL_RCC_GetHCLKFreq = 80000000,
     pinmap_peripheral = (\<lambda>pin m. 0xA0001000),
     pinmap_merge = (\<lambda>a b. if a = b then a else if a = NC then b
                             else if b = NC then a else NC),
     hal_response = (\<lambda>tr c. HAL_OK)\<rparr>"

text \<open>The same platform with a vendor library whose transmit routine fails.\<close>

definition transmit_failing_platform :: platform where
  "transmit_failing_platform =
    sample_platform\<lparr>hal_response :=
      (\<lambda>tr c. if is_HAL_QSPI_Transmit c then HAL_ERROR else HAL_OK)\<rparr>"

text \<open>The same platform with a vendor library that times out on every call.\<close>

definition timeout_platform :: platform where
  "timeout_platform = sample_platform\<lparr>hal_response := (\<lambda>tr c. HAL_TIMEOUT)\<rparr>"

definition sample_command :: qspi_command_t where
  "sample_command =
    \<lparr>instruction_bus_width = QSPI_CFG_BUS_SINGLE,
     instruction_value = 0x9F,
     address_bus_width = QSPI_CFG_BUS_SINGLE,
     address_size = 2,
     address_value = 0x100000,
     address_disabled = False,
     alt_bus_width = QSPI_CFG_BUS_QUAD,
     alt_size = 2,
     alt_value = 0xA5,
     alt_disabled = False,
     dummy_count = 8,
     data_bus_width = QSPI_CFG_BUS_QUAD\<rparr>"

text \<open>Stack contents under an uninitialised command structure.\<close>

definition stack_junk :: QSPI_CommandTypeDef where
  "stack_junk =
    \<lparr>Instruction = 0xDEADBEEF, Address = 0xDEADBEEF, AlternateBytes = 0xDEADBEEF,
     AddressSize = 0xDEADBEEF, AlternateBytesSize = 0xDEADBEEF,
     DummyCycles = 0xDEADBEEF, InstructionMode = 0xDEADBEEF,
     AddressMode = 0xDEADBEEF, AlternateByteMode = 0xDEADBEEF,
     DataMode = 0xDEADBEEF, NbData = 0xDEADBEEF, DdrMode = 0xDEADBEEF,
     DdrHoldHalfCycle = 0xDEADBEEF, SIOOMode = 0xDEADBEEF\<rparr>"

definition sample_obj :: qspi_t where
  "sample_obj =
    \<lparr>handle =
      \<lparr>Instance = 0xA0001000,
       Init = \<lparr>ClockPrescaler = 1, FifoThreshold = 1, SampleShifting = 0x10,
               FlashSize = 4, ChipSelectHighTime = 0x400, ClockMode = 0,
               FlashID = 0, DualFlash = 0\<rparr>\<rparr>\<rparr>"

text \<open>
  The calls that \<open>qspi_init\<close> has made on pins 1 to 6 of that platform by the time
  it calls \<open>qspi_frequency\<close>.
\<close>

definition sample_init_log :: "hal_call list" where
  "sample_init_log =
    [Call_HAL_RCC_QSPI_CLK_ENABLE, Call_HAL_RCC_QSPI_FORCE_RESET,
     Call_HAL_RCC_QSPI_RELEASE_RESET,
     Call_pinmap_pinout 1 PinMap_QSPI_DATA, Call_pinmap_pinout 2 PinMap_QSPI_DATA,
     Call_pinmap_pinout 3 PinMap_QSPI_DATA, Call_pinmap_pinout 4 PinMap_QSPI_DATA,
     Call_pinmap_pinout 5 PinMap_QSPI_SCLK, Call_pinmap_pinout 6 PinMap_QSPI_SSEL,
     Call_HAL_QSPI_Init (handle sample_obj)]"

section \<open>Properties\<close>

subsection \<open>Machine arithmetic\<close>

lemma sint_as_signed_take_bit:
  "sint (w :: uint32_t) = signed_take_bit 31 (uint w)"
  using sint_uint [of w] by simp

lemma sint_small_eq_uint:
  assumes "uint (w :: uint32_t) < 2 ^ 31"
  shows "sint w = uint w"
proof -
  have "- (2 ^ 31) \<le> (0 :: int)"
    by simp
  also have "0 \<le> uint w"
    by simp
  finally have "- (2 ^ 31) \<le> uint w" .
  then have "signed_take_bit 31 (uint w) = uint w"
    using assms by (rule signed_take_bit_int_eq_self)
  then show ?thesis
    by (simp only: sint_as_signed_take_bit)
qed

lemma sint_pos_eq_uint:
  assumes "0 < sint (w :: uint32_t)"
  shows "sint w = uint w"
proof (cases "uint w < 2 ^ 31")
  case True
  then show ?thesis by (rule sint_small_eq_uint)
next
  case False
  define t where "t = signed_take_bit 31 (uint w)"
  from False have "2 ^ 31 \<le> uint w" by simp
  then have "signed_take_bit 31 (uint w) \<le> uint w - 2 ^ Suc 31"
    by (rule signed_take_bit_int_less_eq)
  then have "t \<le> uint w - 2 ^ 32"
    by (simp add: t_def)
  moreover have "uint w < 2 ^ 32"
    using uint_lt2p [of w] by simp
  ultimately have "t < 0"
    by simp
  moreover have "sint w = t"
    by (simp only: sint_as_signed_take_bit t_def)
  ultimately show ?thesis
    using assms by simp
qed

text \<open>
  For a positive \<open>hz\<close> and a clock below \<open>2 ^ 31\<close> Hz, the quotient that the C
  expression \<open>HAL_RCC_GetHCLKFreq() / hz\<close> yields is the mathematical one.
\<close>

lemma quotient_positive_hz:
  assumes "0 < sint hz" and "uint hclk < 2 ^ 31"
  shows "sint (hclk div hz) = uint hclk div sint (hz :: uint32_t)"
proof -
  have hz: "sint hz = uint hz"
    using assms(1) by (rule sint_pos_eq_uint)
  have q: "uint (hclk div hz) = uint hclk div uint hz"
    by (rule uint_div)
  have "uint hclk div uint hz \<le> uint hclk div 1"
    using assms(1) hz by (intro zdiv_mono2) simp_all
  then have "uint (hclk div hz) < 2 ^ 31"
    using assms(2) q by simp
  then have "sint (hclk div hz) = uint (hclk div hz)"
    by (rule sint_small_eq_uint)
  then show ?thesis
    by (simp only: q hz)
qed

subsection \<open>The calls a transfer makes\<close>

lemma qspi_write_log:
  "\<exists>s new. qspi_write k p u obj command data len tr = (s, len, tr @ new)
     \<and> length new \<le> 2
     \<and> list_all (\<lambda>c. hal_timeout c = Some (HAL_QPSI_TIMEOUT_DEFAULT_VALUE k)) new
     \<and> \<not> list_ex is_HAL_QSPI_Receive new"
  by (simp add: qspi_write_def Let_def)



subsection \<open>Status codes and the clock divisor away from \<open>hz = 0\<close>\<close>

text \<open>
  \<open>qspi_free\<close>, \<open>qspi_write\<close>, \<open>qspi_read\<close> and \<open>qspi_command_transfer\<close> return a
  status code on every input; \<open>qspi_frequency\<close> and \<open>qspi_init\<close> do whenever \<open>hz\<close>
  is not zero.
\<close>

lemma status_codes_nonzero_hz:
  "fst (qspi_free obj tr) = QSPI_STATUS_ERROR
   \<and> fst (qspi_write k p u obj command data len tr) \<in> {QSPI_STATUS_OK, QSPI_STATUS_ERROR}
   \<and> fst (qspi_read k p u obj command len tr) \<in> {QSPI_STATUS_OK, QSPI_STATUS_ERROR}
   \<and> fst (qspi_command_transfer k p u utx urx obj command
            tx_data tx_size rx_data rx_size tr) \<in> {QSPI_STATUS_OK, QSPI_STATUS_ERROR}
   \<and> (hz \<noteq> 0 \<longrightarrow> (\<exists>s obj' tr'. qspi_frequency p obj hz tr = Inr (s, obj', tr')))
   \<and> (hz \<noteq> 0 \<longrightarrow>
        (\<exists>s obj' tr'. qspi_init d p obj io0 io1 io2 io3 sclk ssel hz mode tr
                        = Inr (s, obj', tr')))"
  apply (intro conjI)
       apply (simp add: qspi_free_def)
      apply (simp add: qspi_write_def Let_def)
     apply (simp add: qspi_read_def Let_def)
    apply (simp add: qspi_command_transfer_def qspi_write_def qspi_read_def Let_def
      split: prod.splits)
   apply (simp add: qspi_frequency_def Let_def)
  apply (simp add: qspi_init_def qspi_frequency_def Let_def)
  done

text \<open>
  For \<open>hz\<close> other than zero, \<open>qspi_frequency\<close> returns
  \<open>QSPI_STATUS_INVALID_PARAMETER\<close>, with the object as it was and no call but that
  of \<open>HAL_RCC_GetHCLKFreq\<close>, exactly when the quotient is below 1 or above 256;
  otherwise it stores the quotient minus one as the prescaler and then calls
  \<open>HAL_QSPI_Init\<close> on the updated handle.
\<close>

lemma qspi_frequency_nonzero_hz:
  assumes "hz \<noteq> 0"
  shows "qspi_frequency p obj hz tr =
    (if sint (HAL_RCC_GetHCLKFreq p div hz) < 1 \<or> 256 < sint (HAL_RCC_GetHCLKFreq p div hz)
     then Inr (QSPI_STATUS_INVALID_PARAMETER, obj, tr @ [Call_HAL_RCC_GetHCLKFreq])
     else Inr (if hal_response p (tr @ [Call_HAL_RCC_GetHCLKFreq]) (Call_HAL_QSPI_Init ((handle obj)\<lparr>Init :=
                      (Init (handle obj))\<lparr>ClockPrescaler :=
                         HAL_RCC_GetHCLKFreq p div hz - 1\<rparr>\<rparr>)) = HAL_OK
               then QSPI_STATUS_OK else QSPI_STATUS_ERROR,
               obj\<lparr>handle := (handle obj)\<lparr>Init :=
                      (Init (handle obj))\<lparr>ClockPrescaler :=
                         HAL_RCC_GetHCLKFreq p div hz - 1\<rparr>\<rparr>\<rparr>,
               tr @ [Call_HAL_RCC_GetHCLKFreq,
                     Call_HAL_QSPI_Init ((handle obj)\<lparr>Init :=
                      (Init (handle obj))\<lparr>ClockPrescaler :=
                         HAL_RCC_GetHCLKFreq p div hz - 1\<rparr>\<rparr>)]))"
  using assms by (auto simp add: qspi_frequency_def Let_def)

subsection \<open>The claims\<close>

text \<open>
  C1, as the code has it. The instruction and data modes that \<open>qspi_prepare_command\<close>
  produces are the spec's mapping of the phase's bus width (single to 1 line, dual to 2
  lines, quad to 4 lines, anything else to none). The address and alternate-bytes modes
  are that mapping of their bus widths when the phase is not disabled, and the value for
  no lines when it is. None of the four depends on anything but the descriptor (and the
  vendor's constants): the right-hand sides mention neither the previous contents of the
  output structure nor any other state.
\<close>

theorem prepare_command_modes:
  "InstructionMode (qspi_prepare_command k command st) =
     bus_width_to_mode (QSPI_INSTRUCTION_NONE k) (QSPI_INSTRUCTION_1_LINE k)
       (QSPI_INSTRUCTION_2_LINES k) (QSPI_INSTRUCTION_4_LINES k)
       (instruction_bus_width command)
   \<and> DataMode (qspi_prepare_command k command st) =
     bus_width_to_mode (QSPI_DATA_NONE k) (QSPI_DATA_1_LINE k)
       (QSPI_DATA_2_LINES k) (QSPI_DATA_4_LINES k) (data_bus_width command)
   \<and> AddressMode (qspi_prepare_command k command st) =
     (if address_disabled command then QSPI_ADDRESS_NONE k
      else bus_width_to_mode (QSPI_ADDRESS_NONE k) (QSPI_ADDRESS_1_LINE k)
             (QSPI_ADDRESS_2_LINES k) (QSPI_ADDRESS_4_LINES k)
             (address_bus_width command))
   \<and> AlternateByteMode (qspi_prepare_command k command st) =
     (if alt_disabled command then QSPI_ALTERNATE_BYTES_NONE k
      else bus_width_to_mode (QSPI_ALTERNATE_BYTES_NONE k)
             (QSPI_ALTERNATE_BYTES_1_LINE k) (QSPI_ALTERNATE_BYTES_2_LINES k)
             (QSPI_ALTERNATE_BYTES_4_LINES k) (alt_bus_width command))"
  by (simp add: qspi_prepare_command_def bus_width_to_mode_def Let_def)

text \<open>
  C1 as stated fails: with the address bus width \<open>QSPI_CFG_BUS_SINGLE\<close> and the address
  phase disabled, the address mode that comes out is not the 1-line mode.
\<close>

theorem disabled_address_not_one_line:
  "address_bus_width (sample_command\<lparr>address_disabled := True\<rparr>) = QSPI_CFG_BUS_SINGLE
   \<and> AddressMode (qspi_prepare_command stm32_hal_defs
        (sample_command\<lparr>address_disabled := True\<rparr>) stack_junk)
     \<noteq> QSPI_ADDRESS_1_LINE stm32_hal_defs"
  by (simp add: qspi_prepare_command_def stm32_hal_defs_def sample_command_def
      stack_junk_def)




subsection \<open>Failure paths\<close>

text \<open>
  If the vendor's library answers the \<open>HAL_QSPI_Command\<close> call of \<open>qspi_write\<close> or
  \<open>qspi_read\<close> with anything but \<open>HAL_OK\<close>, the function returns
  \<open>QSPI_STATUS_ERROR\<close> and that call is the only one it added to the log. If the
  transmit step of \<open>qspi_command_transfer\<close> does not return \<open>QSPI_STATUS_OK\<close>, the
  transfer returns that status with the log as \<open>qspi_write\<close> left it, and no
  \<open>HAL_QSPI_Receive\<close> in what it added.
\<close>

lemma transfer_failure_paths:
  "(hal_response p tr (Call_HAL_QSPI_Command (handle obj)
        ((qspi_prepare_command k command u)\<lparr>NbData := len\<rparr>)
        (HAL_QPSI_TIMEOUT_DEFAULT_VALUE k)) \<noteq> HAL_OK \<longrightarrow>
      qspi_write k p u obj command data len tr =
        (QSPI_STATUS_ERROR, len,
         tr @ [Call_HAL_QSPI_Command (handle obj)
                 ((qspi_prepare_command k command u)\<lparr>NbData := len\<rparr>)
                 (HAL_QPSI_TIMEOUT_DEFAULT_VALUE k)])
      \<and> qspi_read k p u obj command len tr =
        (QSPI_STATUS_ERROR, len,
         tr @ [Call_HAL_QSPI_Command (handle obj)
                 ((qspi_prepare_command k command u)\<lparr>NbData := len\<rparr>)
                 (HAL_QPSI_TIMEOUT_DEFAULT_VALUE k)]))
   \<and> (tx_data \<noteq> None \<and> tx_size \<noteq> 0
        \<and> fst (qspi_write k p utx obj command (the tx_data) tx_size tr)
            \<noteq> QSPI_STATUS_OK \<longrightarrow>
      qspi_command_transfer k p u utx urx obj command tx_data tx_size rx_data rx_size tr =
        (fst (qspi_write k p utx obj command (the tx_data) tx_size tr),
         snd (snd (qspi_write k p utx obj command (the tx_data) tx_size tr)))
      \<and> fst (qspi_command_transfer k p u utx urx obj command
               tx_data tx_size rx_data rx_size tr) = QSPI_STATUS_ERROR
      \<and> \<not> list_ex is_HAL_QSPI_Receive
            (issued tr (snd (qspi_command_transfer k p u utx urx obj command
               tx_data tx_size rx_data rx_size tr))))"
proof -
  have a: "hal_response p tr (Call_HAL_QSPI_Command (handle obj)
        ((qspi_prepare_command k command u)\<lparr>NbData := len\<rparr>)
        (HAL_QPSI_TIMEOUT_DEFAULT_VALUE k)) \<noteq> HAL_OK \<longrightarrow>
      qspi_write k p u obj command data len tr =
        (QSPI_STATUS_ERROR, len,
         tr @ [Call_HAL_QSPI_Command (handle obj)
                 ((qspi_prepare_command k command u)\<lparr>NbData := len\<rparr>)
                 (HAL_QPSI_TIMEOUT_DEFAULT_VALUE k)])
      \<and> qspi_read k p u obj command len tr =
        (QSPI_STATUS_ERROR, len,
         tr @ [Call_HAL_QSPI_Command (handle obj)
                 ((qspi_prepare_command k command u)\<lparr>NbData := len\<rparr>)
                 (HAL_QPSI_TIMEOUT_DEFAULT_VALUE k)])"
    by (simp add: qspi_write_def qspi_read_def Let_def)
  obtain s new where
    w: "qspi_write k p utx obj command (the tx_data) tx_size tr = (s, tx_size, tr @ new)"
    and new: "\<not> list_ex is_HAL_QSPI_Receive new"
    using qspi_write_log [of k p utx obj command "the tx_data" tx_size tr] by blast
  have s: "s = QSPI_STATUS_OK \<or> s = QSPI_STATUS_ERROR"
    using w by (auto simp add: qspi_write_def Let_def split: if_splits)
  have b: "tx_data \<noteq> None \<and> tx_size \<noteq> 0
        \<and> fst (qspi_write k p utx obj command (the tx_data) tx_size tr)
            \<noteq> QSPI_STATUS_OK \<longrightarrow>
      qspi_command_transfer k p u utx urx obj command tx_data tx_size rx_data rx_size tr =
        (fst (qspi_write k p utx obj command (the tx_data) tx_size tr),
         snd (snd (qspi_write k p utx obj command (the tx_data) tx_size tr)))
      \<and> fst (qspi_command_transfer k p u utx urx obj command
               tx_data tx_size rx_data rx_size tr) = QSPI_STATUS_ERROR
      \<and> \<not> list_ex is_HAL_QSPI_Receive
            (issued tr (snd (qspi_command_transfer k p u utx urx obj command
               tx_data tx_size rx_data rx_size tr)))"
    using w new s by (auto simp add: qspi_command_transfer_def issued_def)
  from a b show ?thesis by (rule conjI)
qed


text \<open>
  The other two failure paths of \<open>qspi_command_transfer\<close>: a failed command-only
  transfer returns \<open>QSPI_STATUS_ERROR\<close>, and the status of the receive step, when it
  runs, is the status of the transfer.
\<close>

lemma command_transfer_other_failure_paths:
  "((tx_data = None \<or> tx_size = 0) \<and> (rx_data = None \<or> rx_size = 0)
      \<and> hal_response p tr (Call_HAL_QSPI_Command (handle obj)
            ((qspi_prepare_command k command u)
               \<lparr>NbData := 1, DataMode := QSPI_DATA_NONE k\<rparr>)
            (HAL_QPSI_TIMEOUT_DEFAULT_VALUE k)) \<noteq> HAL_OK \<longrightarrow>
      fst (qspi_command_transfer k p u utx urx obj command
             tx_data tx_size rx_data rx_size tr) = QSPI_STATUS_ERROR)
   \<and> ((tx_data = None \<or> tx_size = 0) \<and> rx_data \<noteq> None \<and> rx_size \<noteq> 0 \<longrightarrow>
      fst (qspi_command_transfer k p u utx urx obj command
             tx_data tx_size rx_data rx_size tr) =
        fst (qspi_read k p urx obj command rx_size tr))
   \<and> (tx_data \<noteq> None \<and> tx_size \<noteq> 0 \<and> rx_data \<noteq> None \<and> rx_size \<noteq> 0
        \<and> fst (qspi_write k p utx obj command (the tx_data) tx_size tr)
            = QSPI_STATUS_OK \<longrightarrow>
      fst (qspi_command_transfer k p u utx urx obj command
             tx_data tx_size rx_data rx_size tr) =
        fst (qspi_read k p urx obj command rx_size
               (snd (snd (qspi_write k p utx obj command (the tx_data) tx_size tr)))))"
  apply (intro conjI)
    apply (simp add: qspi_command_transfer_def Let_def)
   apply (auto simp add: qspi_command_transfer_def split: prod.splits)
  done

text \<open>
  Whenever \<open>qspi_init\<close> has called \<open>qspi_frequency\<close> (the log shows the call of
  \<open>HAL_RCC_GetHCLKFreq\<close>) and returns, it returns \<open>QSPI_STATUS_OK\<close>, whatever status
  \<open>qspi_frequency\<close> returned.
\<close>

lemma qspi_init_after_frequency:
  assumes "qspi_init d p obj io0 io1 io2 io3 sclk ssel hz mode tr = Inr (s, obj', tr')"
    and "Call_HAL_RCC_GetHCLKFreq \<in> set (issued tr tr')"
  shows "s = QSPI_STATUS_OK"
  using assms
  by (auto simp add: qspi_init_def qspi_frequency_def Let_def issued_def
      split: if_splits sum.splits)

lemma position_val_32: "trailing_zeros 32 32 = 5"
  by code_simp

subsection \<open>The claims, continued\<close>

text \<open>
  C3 says that every operation propagates failure by immediate return. \<open>qspi_init\<close>
  does not: it calls \<open>qspi_frequency\<close>, throws the returned status away and returns
  \<open>QSPI_STATUS_OK\<close>. With an 80 MHz clock and \<open>hz = 80\<close> the divisor is 1000000, so
  \<open>qspi_frequency\<close> returns \<open>QSPI_STATUS_INVALID_PARAMETER\<close> and leaves the prescaler
  alone, and \<open>qspi_init\<close> still reports success.
\<close>

theorem qspi_init_discards_frequency_status:
  "qspi_frequency sample_platform sample_obj 80 sample_init_log =
     Inr (QSPI_STATUS_INVALID_PARAMETER, sample_obj,
          sample_init_log @ [Call_HAL_RCC_GetHCLKFreq])
   \<and> qspi_init stm32_init_defs sample_platform sample_obj 1 2 3 4 5 6 80 0 [] =
     Inr (QSPI_STATUS_OK, sample_obj, sample_init_log @ [Call_HAL_RCC_GetHCLKFreq])"
  by (simp add: qspi_init_def qspi_frequency_def Let_def sample_platform_def
      stm32_init_defs_def sample_obj_def sample_init_log_def QSPI_FLASH_SIZE_DEFAULT_def
      position_val_32)

text \<open>
  The input of C3 passes the pin check of \<open>qspi_init\<close>, and its divisor is out of
  range.
\<close>

theorem qspi_init_discards_frequency_status_instance:
  "pinmap_merge sample_platform (pinmap_peripheral sample_platform 1 PinMap_QSPI_DATA)
       (pinmap_peripheral sample_platform 2 PinMap_QSPI_DATA) = 0xA0001000
   \<and> pinmap_merge sample_platform (pinmap_peripheral sample_platform 3 PinMap_QSPI_DATA)
       (pinmap_peripheral sample_platform 4 PinMap_QSPI_DATA) = 0xA0001000
   \<and> pinmap_merge sample_platform (pinmap_peripheral sample_platform 5 PinMap_QSPI_SCLK)
       (pinmap_peripheral sample_platform 6 PinMap_QSPI_SSEL) = 0xA0001000
   \<and> sint (HAL_RCC_GetHCLKFreq sample_platform div 80) = 1000000
   \<and> fst (projr (qspi_frequency sample_platform sample_obj 80 sample_init_log))
       = QSPI_STATUS_INVALID_PARAMETER
   \<and> fst (projr (qspi_init stm32_init_defs sample_platform sample_obj
                     1 2 3 4 5 6 80 0 []))
       = QSPI_STATUS_OK"
  using qspi_init_discards_frequency_status
  by (simp add: sample_platform_def)

text \<open>
  C4 says that \<open>qspi_init\<close> always returns one of the three status codes. With valid
  pins, a vendor library that answers \<open>HAL_OK\<close> and \<open>hz = 0\<close>, \<open>qspi_init\<close> reaches
  \<open>qspi_frequency\<close>, which divides the clock frequency by zero before it checks
  anything: no status code is returned.
\<close>

theorem qspi_init_zero_hz_faults:
  "qspi_init stm32_init_defs sample_platform sample_obj 1 2 3 4 5 6 0 0 [] =
     Inl Division_By_Zero"
  by (simp add: qspi_init_def qspi_frequency_def Let_def sample_platform_def)

text \<open>
  The input of C4 passes the pin check of \<open>qspi_init\<close> (the three merged peripheral
  names agree) and the vendor's initialisation succeeds, so the fault is that of the
  division.
\<close>

theorem qspi_init_zero_hz_faults_instance:
  "pinmap_merge sample_platform (pinmap_peripheral sample_platform 1 PinMap_QSPI_DATA)
       (pinmap_peripheral sample_platform 2 PinMap_QSPI_DATA) = 0xA0001000
   \<and> pinmap_merge sample_platform (pinmap_peripheral sample_platform 3 PinMap_QSPI_DATA)
       (pinmap_peripheral sample_platform 4 PinMap_QSPI_DATA) = 0xA0001000
   \<and> pinmap_merge sample_platform (pinmap_peripheral sample_platform 5 PinMap_QSPI_SCLK)
       (pinmap_peripheral sample_platform 6 PinMap_QSPI_SSEL) = 0xA0001000
   \<and> qspi_init stm32_init_defs sample_platform sample_obj 1 2 3 4 5 6 0 0 [] =
       Inl Division_By_Zero"
  using qspi_init_zero_hz_faults
  by (simp add: sample_platform_def)

text \<open>
  C5. When \<open>address.disabled\<close> is true, \<open>qspi_prepare_command\<close> produces the address
  mode \<open>QSPI_ADDRESS_NONE\<close> and the address size 0, whatever the other address fields
  hold; when \<open>alt.disabled\<close> is true, it produces the alternate-bytes mode
  \<open>QSPI_ALTERNATE_BYTES_NONE\<close> and the alternate-bytes size 0.
\<close>

theorem disabled_flag_overrides:
  "(address_disabled command \<longrightarrow>
      AddressMode (qspi_prepare_command k command st) = QSPI_ADDRESS_NONE k
      \<and> AddressSize (qspi_prepare_command k command st) = 0)
   \<and> (alt_disabled command \<longrightarrow>
      AlternateByteMode (qspi_prepare_command k command st) = QSPI_ALTERNATE_BYTES_NONE k
      \<and> AlternateBytesSize (qspi_prepare_command k command st) = 0)"
  by (simp add: qspi_prepare_command_def Let_def)

text \<open>
  C5 at a descriptor with single-line address, quad alternate bytes, sizes 2, and both
  phases disabled.
\<close>

theorem disabled_flag_overrides_instance:
  "address_disabled (sample_command\<lparr>address_disabled := True, alt_disabled := True\<rparr>)
   \<and> alt_disabled (sample_command\<lparr>address_disabled := True, alt_disabled := True\<rparr>)
   \<and> AddressMode (qspi_prepare_command stm32_hal_defs
        (sample_command\<lparr>address_disabled := True, alt_disabled := True\<rparr>)
        stack_junk) = 0
   \<and> AddressSize (qspi_prepare_command stm32_hal_defs
        (sample_command\<lparr>address_disabled := True, alt_disabled := True\<rparr>)
        stack_junk) = 0
   \<and> AlternateByteMode (qspi_prepare_command stm32_hal_defs
        (sample_command\<lparr>address_disabled := True, alt_disabled := True\<rparr>)
        stack_junk) = 0
   \<and> AlternateBytesSize (qspi_prepare_command stm32_hal_defs
        (sample_command\<lparr>address_disabled := True, alt_disabled := True\<rparr>)
        stack_junk) = 0"
  using disabled_flag_overrides
    [where command = "sample_command\<lparr>address_disabled := True, alt_disabled := True\<rparr>"
       and k = stm32_hal_defs and st = stack_junk]
  by (simp add: stm32_hal_defs_def)

text \<open>
  C6 says what \<open>qspi_frequency\<close> does for every requested frequency. At \<open>hz = 0\<close> the
  function divides the clock frequency by zero before its range check: it neither
  returns \<open>QSPI_STATUS_INVALID_PARAMETER\<close> nor stores a prescaler.
\<close>

theorem qspi_frequency_zero_hz_faults:
  "qspi_frequency sample_platform sample_obj 0 [] = Inl Division_By_Zero"
  by (simp add: qspi_frequency_def)

text \<open>
  C8. When \<open>alt.disabled\<close> is false, the alternate-bytes size that
  \<open>qspi_prepare_command\<close> produces is the raw \<open>alt.size\<close> (the shifted and masked value
  assigned first is overwritten), whereas the address size of an enabled address phase
  is \<open>address.size\<close> shifted by \<open>QUADSPI_CCR_ADSIZE_Pos\<close> and masked with
  \<open>QUADSPI_CCR_ADSIZE_Msk\<close>.
\<close>

theorem alt_size_raw_address_size_shifted:
  "(\<not> alt_disabled command \<longrightarrow>
      AlternateBytesSize (qspi_prepare_command k command st) = alt_size command)
   \<and> (\<not> address_disabled command \<longrightarrow>
      AddressSize (qspi_prepare_command k command st) =
        push_bit (QUADSPI_CCR_ADSIZE_Pos k) (address_size command)
          AND QUADSPI_CCR_ADSIZE_Msk k)"
  by (simp add: qspi_prepare_command_def Let_def)

text \<open>
  C8 at a descriptor whose two sizes are both 2: the alternate-bytes size comes out as
  2, the address size as \<open>0x2000\<close>.
\<close>

theorem alt_size_raw_address_size_shifted_instance:
  "\<not> alt_disabled sample_command \<and> \<not> address_disabled sample_command
   \<and> alt_size sample_command = 2 \<and> address_size sample_command = 2
   \<and> AlternateBytesSize
        (qspi_prepare_command stm32_hal_defs sample_command stack_junk) = 2
   \<and> AddressSize
        (qspi_prepare_command stm32_hal_defs sample_command stack_junk) = 0x2000"
  using alt_size_raw_address_size_shifted
    [where command = sample_command and k = stm32_hal_defs and st = stack_junk]
  by (simp add: stm32_hal_defs_def sample_command_def)

text \<open>
  C9. \<open>qspi_write\<close> and \<open>qspi_read\<close> hand \<open>*length\<close> back as they received it,
  whatever status they return.
\<close>

theorem length_not_modified:
  "fst (snd (qspi_write k p uninit obj command data length_v tr)) = length_v
   \<and> fst (snd (qspi_read k p uninit obj command length_v tr)) = length_v"
  by (simp add: qspi_write_def qspi_read_def Let_def)

text \<open>
  C10. \<open>qspi_free\<close> returns \<open>QSPI_STATUS_ERROR\<close> on every input, makes no call and
  leaves the object as it was.
\<close>

theorem qspi_free_does_nothing:
  "qspi_free obj tr = (QSPI_STATUS_ERROR, obj, tr)"
  by (simp add: qspi_free_def)

end
